theory Spec2Isabelle
  imports Main "HOL-Library.Log_Nat"
begin

section \<open>Python floats: IEEE 754 binary64, round to nearest, ties to even\<close>

text \<open>
  Every number of \<^verbatim>\<open>Naiver-Strokes-Audit.py\<close> is a Python \<^verbatim>\<open>float\<close> or a
  \<^verbatim>\<open>numpy.float64\<close>, both binary64. A value is a signed finite magnitude, a
  signed infinity or a NaN; the sign is kept apart from the magnitude so that
  both zeros exist. \<open>Fin s m\<close> stands for \<open>(if s then - m else m)\<close>, with
  \<open>0 \<le> m\<close> in every value the operations below produce.
\<close>

datatype double = Fin bool rat | Inf bool | NaN

definition signed :: "bool \<Rightarrow> rat \<Rightarrow> rat" where
  "signed s m = (if s then - m else m)"

text \<open>\<open>ilog2 m\<close> is the binary exponent of a positive rational: \<open>2 ^ e \<le> m < 2 ^ (e + 1)\<close>.\<close>

definition ilog2 :: "rat \<Rightarrow> int" where
  "ilog2 m =
     (let d = bitlen (fst (quotient_of m)) - bitlen (snd (quotient_of m))
      in if 2 powi d \<le> m then d else d - 1)"

definition round_half_even :: "rat \<Rightarrow> int" where
  "round_half_even q =
     (let f = \<lfloor>q\<rfloor>; r = q - of_int f
      in if r < 1 / 2 then f else if 1 / 2 < r then f + 1
         else if even f then f else f + 1)"

text \<open>
  The spacing of the doubles around \<open>m\<close> is \<open>2 ^ quantum_exp m\<close>: 52 fraction bits
  below the exponent, which is held at \<open>- 1022\<close> in the subnormal range.
\<close>

definition quantum_exp :: "rat \<Rightarrow> int" where
  "quantum_exp m = max (ilog2 m) (- 1022) - 52"

text \<open>
  Rounding of an exact magnitude \<open>0 \<le> m\<close> with sign \<open>s\<close>: to the nearest multiple
  of the spacing, a tie to the even multiple, and to infinity from \<open>2 ^ 1024\<close> on.
\<close>

definition rnd :: "bool \<Rightarrow> rat \<Rightarrow> double" where
  "rnd s m =
     (if m = 0 then Fin s 0
      else let e = quantum_exp m;
               r = of_int (round_half_even (m / 2 powi e)) * 2 powi e
           in if 2 ^ 1024 \<le> r then Inf s else Fin s r)"

text \<open>
  A decimal literal of the source (\<^verbatim>\<open>0.8\<close>, \<^verbatim>\<open>1e-40\<close>) and an \<^verbatim>\<open>int\<close> operand
  converted to \<^verbatim>\<open>float\<close> (\<^verbatim>\<open>4 * ...\<close>, \<^verbatim>\<open>delta > 0\<close>) denote the double nearest to
  their exact value.
\<close>

definition lit :: "rat \<Rightarrow> double" where
  "lit q = rnd (q < 0) \<bar>q\<bar>"

text \<open>
  The operators \<^verbatim>\<open>+\<close>, \<^verbatim>\<open>*\<close>, \<^verbatim>\<open>/\<close>, unary \<^verbatim>\<open>-\<close>, \<^verbatim>\<open><\<close> and \<^verbatim>\<open><=\<close> on doubles. None of
  them raises. \<open>/\<close> is the division of \<^verbatim>\<open>numpy.float64\<close>, which returns an
  infinity or a NaN for a zero divisor (and warns); the division of two Python
  numbers, which raises, is \<open>py_truediv\<close> below. Every comparison with a NaN is
  false.
\<close>

instantiation double :: "{plus, times, inverse, uminus, ord}"
begin

fun plus_double :: "double \<Rightarrow> double \<Rightarrow> double" where
  "plus_double NaN _ = NaN"
| "plus_double _ NaN = NaN"
| "plus_double (Inf s) (Inf t) = (if s = t then Inf s else NaN)"
| "plus_double (Inf s) (Fin _ _) = Inf s"
| "plus_double (Fin _ _) (Inf t) = Inf t"
| "plus_double (Fin s a) (Fin t b) =
     (let x = signed s a + signed t b
      in if x = 0 then Fin (s \<and> t) 0 else rnd (x < 0) \<bar>x\<bar>)"

fun times_double :: "double \<Rightarrow> double \<Rightarrow> double" where
  "times_double NaN _ = NaN"
| "times_double _ NaN = NaN"
| "times_double (Inf s) (Inf t) = Inf (s \<noteq> t)"
| "times_double (Inf s) (Fin t b) = (if b = 0 then NaN else Inf (s \<noteq> t))"
| "times_double (Fin s a) (Inf t) = (if a = 0 then NaN else Inf (s \<noteq> t))"
| "times_double (Fin s a) (Fin t b) = rnd (s \<noteq> t) (a * b)"

fun divide_double :: "double \<Rightarrow> double \<Rightarrow> double" where
  "divide_double NaN _ = NaN"
| "divide_double _ NaN = NaN"
| "divide_double (Inf s) (Inf t) = NaN"
| "divide_double (Inf s) (Fin t b) = Inf (s \<noteq> t)"
| "divide_double (Fin s a) (Inf t) = Fin (s \<noteq> t) 0"
| "divide_double (Fin s a) (Fin t b) =
     (if b = 0 then (if a = 0 then NaN else Inf (s \<noteq> t))
      else rnd (s \<noteq> t) (a / b))"

definition inverse_double :: "double \<Rightarrow> double" where
  "inverse_double x = divide (Fin False 1) x"

fun uminus_double :: "double \<Rightarrow> double" where
  "uminus_double NaN = NaN"
| "uminus_double (Inf s) = Inf (\<not> s)"
| "uminus_double (Fin s a) = Fin (\<not> s) a"

fun less_double :: "double \<Rightarrow> double \<Rightarrow> bool" where
  "less_double NaN _ = False"
| "less_double _ NaN = False"
| "less_double (Inf s) (Inf t) = (s \<and> \<not> t)"
| "less_double (Inf s) (Fin _ _) = s"
| "less_double (Fin _ _) (Inf t) = (\<not> t)"
| "less_double (Fin s a) (Fin t b) = (signed s a < signed t b)"

fun less_eq_double :: "double \<Rightarrow> double \<Rightarrow> bool" where
  "less_eq_double NaN _ = False"
| "less_eq_double _ NaN = False"
| "less_eq_double (Inf s) (Inf t) = (s \<or> \<not> t)"
| "less_eq_double (Inf s) (Fin _ _) = s"
| "less_eq_double (Fin _ _) (Inf t) = (\<not> t)"
| "less_eq_double (Fin s a) (Fin t b) = (signed s a \<le> signed t b)"

instance ..

end

fun is_zero :: "double \<Rightarrow> bool" where
  "is_zero (Fin s m) = (m = 0)"
| "is_zero _ = False"

fun is_inf :: "double \<Rightarrow> bool" where
  "is_inf (Inf s) = True"
| "is_inf _ = False"

text \<open>\<^verbatim>\<open>np.pi\<close>: the double nearest to \<open>\<pi>\<close>, \<^verbatim>\<open>0x1.921fb54442d18p+1\<close>.\<close>

definition np_pi :: double where
  "np_pi = Fin False (884279719003555 / 281474976710656)"

section \<open>The libraries the script calls\<close>

text \<open>
  \<^verbatim>\<open>numpy\<close>, the C library's \<^verbatim>\<open>pow\<close>, \<^verbatim>\<open>scipy.integrate.dblquad\<close>, the
  formatting of a float under a format specification and \<^verbatim>\<open>hashlib.sha256\<close> are
  not code of this repository. They are parameters of the model: functions of
  their arguments, about whose values nothing is assumed. \<open>dblquad\<close> returns the
  pair of the integral estimate and the error estimate; \<open>sha256_hexdigest\<close> maps
  a byte string to \<^verbatim>\<open>hashlib.sha256(bytes).hexdigest()\<close>.
\<close>

record libs =
  np_sin :: "double \<Rightarrow> double"
  np_cos :: "double \<Rightarrow> double"
  np_sqrt :: "double \<Rightarrow> double"
  libm_pow :: "double \<Rightarrow> double \<Rightarrow> double"
  dblquad :: "(double \<Rightarrow> double \<Rightarrow> double) \<Rightarrow> double \<Rightarrow> double \<Rightarrow> double \<Rightarrow> double
                \<Rightarrow> double \<times> double"
  float_format :: "string \<Rightarrow> double \<Rightarrow> string"
  sha256_hexdigest :: "string \<Rightarrow> string"

section \<open>Exceptions and the Python operations that raise them\<close>

datatype error = OverflowError | ZeroDivisionError

definition bind_err :: "error + 'a \<Rightarrow> ('a \<Rightarrow> error + 'b) \<Rightarrow> error + 'b" where
  "bind_err m f = (case m of Inl e \<Rightarrow> Inl e | Inr x \<Rightarrow> f x)"

text \<open>
  \<^verbatim>\<open>v ** w\<close> on a float: CPython's \<^verbatim>\<open>float_pow\<close> for a finite positive base and a
  finite exponent, which every \<^verbatim>\<open>**\<close> of the script has (its operands are
  constants). A zero exponent and the base \<^verbatim>\<open>1.0\<close> give \<^verbatim>\<open>1.0\<close> without a call
  of the C library; otherwise the result is that of \<^verbatim>\<open>pow\<close>, and an infinite
  one raises \<^verbatim>\<open>OverflowError\<close>.
\<close>

definition py_pow :: "libs \<Rightarrow> double \<Rightarrow> double \<Rightarrow> error + double" where
  "py_pow L v w =
     (if is_zero w then Inr (lit 1.0)
      else if v = lit 1.0 then Inr (lit 1.0)
      else let ix = libm_pow L v w
           in if is_inf ix then Inl OverflowError else Inr ix)"

text \<open>\<^verbatim>\<open>a / b\<close> on two Python numbers (the \<^verbatim>\<open>1/3\<close> of phase 2): a zero divisor raises.\<close>

definition py_truediv :: "double \<Rightarrow> double \<Rightarrow> error + double" where
  "py_truediv a b = (if is_zero b then Inl ZeroDivisionError else Inr (a / b))"

text \<open>
  The builtin \<^verbatim>\<open>min\<close> of three arguments keeps the first one and replaces it by
  a later one that is strictly smaller.
\<close>

definition py_min3 :: "double \<Rightarrow> double \<Rightarrow> double \<Rightarrow> double" where
  "py_min3 a b c =
     (let m = a; m = (if b < m then b else m); m = (if c < m then c else m) in m)"

text \<open>\<^verbatim>\<open>str.upper\<close> on an ASCII string, which a hexadecimal digest is.\<close>

definition py_upper_char :: "char \<Rightarrow> char" where
  "py_upper_char c =
     (let n = (of_char c :: nat) in if 97 \<le> n \<and> n \<le> 122 then char_of (n - 32) else c)"

definition py_upper :: "string \<Rightarrow> string" where
  "py_upper s = map py_upper_char s"

section \<open>The script\<close>

subsection \<open>Fundamental constants\<close>

definition HBAR :: double where
  "HBAR = lit (1.054571817 / 10 ^ 34)"

definition C :: double where
  "C = lit (2.99792458 * 10 ^ 8)"

definition L_P :: double where
  "L_P = lit (1.616255 / 10 ^ 35)"

definition G_COUPLING :: double where
  "G_COUPLING = lit 1.0"

definition EPSILON :: double where
  "EPSILON = lit (1 / 10 ^ 40)"

subsection \<open>\<^verbatim>\<open>HardingYangMillsVerifier\<close>\<close>

text \<open>
  Console output is left out of the model. Of a \<^verbatim>\<open>print\<close> only the evaluation
  of an argument that can raise is kept, and the conditions that choose
  between two messages are kept as local values.
\<close>

record verifier =
  S_H :: double
  F_H :: double

text \<open>\<^verbatim>\<open>__init__\<close>\<close>

definition HardingYangMillsVerifier :: "libs \<Rightarrow> error + verifier" where
  "HardingYangMillsVerifier L =
     bind_err (py_pow L HBAR (lit 1.5)) (\<lambda>p.
       let harding = (p * C) / np_sqrt L L_P
       in Inr \<lparr>S_H = harding, F_H = harding\<rparr>)"

definition topological_density_theta_A :: "libs \<Rightarrow> double \<Rightarrow> double \<Rightarrow> double" where
  "topological_density_theta_A L x y =
     (let F_norm_sq = lit 1.0 + lit 0.1 * np_sin L (lit 2 * np_pi * (x + y));
          winding = lit 0.05 * np_cos L (lit 4 * np_pi * x) * np_sin L (lit 4 * np_pi * y)
      in F_norm_sq + winding)"

definition yang_mills_action :: "libs \<Rightarrow> error + double" where
  "yang_mills_action L =
     (let (F_term, abserr) =
            dblquad L (topological_density_theta_A L) (lit 0) (lit 1) (lit 0) (lit 1)
      in bind_err (py_pow L G_COUPLING (lit 2)) (\<lambda>g2. Inr (lit 4 * g2 * F_term)))"

definition phase_1_regulator_energy_floor :: "libs \<Rightarrow> verifier \<Rightarrow> error + unit" where
  "phase_1_regulator_energy_floor L self =
     bind_err (py_pow L HBAR (lit 1.5)) (\<lambda>shown_hbar.
       let shown_sqrt = np_sqrt L L_P in Inr ())"

definition phase_2_damping_coefficient :: "libs \<Rightarrow> error + double" where
  "phase_2_damping_coefficient L =
     (let (gamma, abserr) =
            dblquad L (topological_density_theta_A L) (lit 0) (lit 1) (lit 0) (lit 1);
          nonlinear_term = lit 1.0
      in bind_err (py_truediv (lit 1) (lit 3)) (\<lambda>third.
         bind_err (py_pow L nonlinear_term third) (\<lambda>p.
           let damping_bound = gamma * p;
               damping_inequality = (nonlinear_term \<le> damping_bound)
           in Inr gamma)))"

definition phase_3_mass_gap_solution :: "libs \<Rightarrow> verifier \<Rightarrow> double \<Rightarrow> error + double" where
  "phase_3_mass_gap_solution L self gamma =
     bind_err (yang_mills_action L) (\<lambda>S_YM.
       let topo_term = F_H self * gamma;
           delta = EPSILON + topo_term;
           positivity_check = (lit 0 < delta);
           constraint_check = ((- S_YM) / F_H self < gamma)
       in Inr delta)"

text \<open>
  Phase 4 raises nothing and returns \<open>K\<close>. Its local variables, with the
  condition \<^verbatim>\<open>K <= sobolev_bound\<close> that chooses the message of its last
  \<^verbatim>\<open>print\<close>, are collected in a record, of which the function returns one field.
\<close>

record phase_4_locals =
  u_norm :: double
  grad_u_norm :: double
  grad2_u_norm :: double
  K_sum :: double
  C_stab :: double
  sobolev_bound :: double
  sobolev_verified :: bool

definition phase_4_body :: "double \<Rightarrow> double \<Rightarrow> phase_4_locals" where
  "phase_4_body S_HYM delta =
     (let u = lit 1.0;
          grad_u = lit 0.8;
          grad2_u = lit 0.6;
          K = grad2_u + grad_u + u;
          C = py_min3 grad2_u grad_u u * lit 1.5;
          bound = C * S_HYM
      in \<lparr>u_norm = u, grad_u_norm = grad_u, grad2_u_norm = grad2_u, K_sum = K,
          C_stab = C, sobolev_bound = bound, sobolev_verified = (K \<le> bound)\<rparr>)"

definition phase_4_sobolev_boundary :: "double \<Rightarrow> double \<Rightarrow> double" where
  "phase_4_sobolev_boundary S_HYM delta = K_sum (phase_4_body S_HYM delta)"

text \<open>
  \<open>state_data\<close> is the formatted string in its UTF-8 encoding, the argument of
  \<^verbatim>\<open>hashlib.sha256\<close>: the letters gamma and Delta of the template are the bytes
  \<^verbatim>\<open>CE B3\<close> and \<^verbatim>\<open>CE 94\<close>.
\<close>

definition state_data :: "libs \<Rightarrow> double \<Rightarrow> double \<Rightarrow> double \<Rightarrow> double \<Rightarrow> string" where
  "state_data L F gamma delta K =
     ''F_H:'' @ float_format L ''.2e'' F
     @ ''|'' @ [char_of (0xCE :: nat), char_of (0xB3 :: nat)] @ '':'' @ float_format L ''.6f'' gamma
     @ ''|'' @ [char_of (0xCE :: nat), char_of (0x94 :: nat)] @ '':'' @ float_format L ''.2e'' delta
     @ ''|K:'' @ float_format L ''.2f'' K"

definition generate_quantum_ledger_hash ::
    "libs \<Rightarrow> double \<Rightarrow> double \<Rightarrow> double \<Rightarrow> double \<Rightarrow> string" where
  "generate_quantum_ledger_hash L F gamma delta K =
     py_upper (take 20 (sha256_hexdigest L (state_data L F gamma delta K)))"

record results =
  res_F_H :: double
  res_gamma :: double
  res_delta :: double
  res_K :: double
  res_S_HYM :: double
  res_quantum_ledger_hash :: string
  res_verified :: bool

definition run_complete_verification :: "libs \<Rightarrow> verifier \<Rightarrow> error + results" where
  "run_complete_verification L self =
     bind_err (phase_1_regulator_energy_floor L self) (\<lambda>_.
     bind_err (phase_2_damping_coefficient L) (\<lambda>gamma.
     bind_err (phase_3_mass_gap_solution L self gamma) (\<lambda>delta.
     bind_err (yang_mills_action L) (\<lambda>S_YM.
       let S_HYM = S_YM + F_H self * gamma + delta;
           K = phase_4_sobolev_boundary S_HYM delta;
           qledger_hash = generate_quantum_ledger_hash L (F_H self) gamma delta K
       in Inr \<lparr>res_F_H = F_H self, res_gamma = gamma, res_delta = delta, res_K = K,
               res_S_HYM = S_HYM, res_quantum_ledger_hash = qledger_hash,
               res_verified = (lit 0 < delta)\<rparr>))))"

text \<open>The script run as a program: construct the verifier, then run it.\<close>

definition main :: "libs \<Rightarrow> error + results" where
  "main L = bind_err (HardingYangMillsVerifier L) (\<lambda>verifier. run_complete_verification L verifier)"

section \<open>Rounding: the exponent, and certificates for concrete values\<close>

lemma bitlen_powi:
  assumes "0 < p"
  shows "(2::rat) powi (bitlen p - 1) \<le> of_int p" "of_int p < (2::rat) powi (bitlen p)"
proof -
  have b: "2 ^ nat (bitlen p - 1) \<le> p" "p < 2 ^ nat (bitlen p)"
    using bitlen_bounds [OF assms] by auto
  have ge: "1 \<le> bitlen p"
    using assms bitlen_eq_zero_iff [of p] bitlen_nonneg [of p] by linarith
  have "(of_int (2 ^ nat (bitlen p - 1)) :: rat) \<le> of_int p"
    using b(1) of_int_le_iff by blast
  then show "(2::rat) powi (bitlen p - 1) \<le> of_int p"
    using ge by (simp add: power_int_nonneg_exp)
  have "(of_int p :: rat) < of_int (2 ^ nat (bitlen p))"
    using b(2) of_int_less_iff by blast
  then show "of_int p < (2::rat) powi (bitlen p)"
    using ge by (simp add: power_int_nonneg_exp)
qed

lemma ilog2_bounds:
  assumes "0 < m"
  shows "2 powi (ilog2 m) \<le> m" "m < 2 powi (ilog2 m + 1)"
proof -
  obtain p q where pq: "quotient_of m = (p, q)" by (cases "quotient_of m")
  have q: "0 < q" using pq by (rule quotient_of_denom_pos)
  have m: "m = of_int p / of_int q" using pq by (rule quotient_of_div)
  have p: "0 < p" using assms q m by (simp add: zero_less_divide_iff)
  let ?d = "bitlen p - bitlen q"
  have "(2::rat) powi (bitlen p - 1) / 2 powi (bitlen q) \<le> of_int p / of_int q"
    using bitlen_powi [OF p] bitlen_powi [OF q] p q by (intro frac_le) auto
  moreover have "(2::rat) powi (?d - 1) = 2 powi (bitlen p - 1) / 2 powi (bitlen q)"
    using power_int_diff [of "2::rat" "bitlen p - 1" "bitlen q"] by (simp add: algebra_simps)
  ultimately have lo: "2 powi (?d - 1) \<le> m" using m by simp
  have "of_int p / of_int q < (2::rat) powi (bitlen p) / 2 powi (bitlen q - 1)"
    using bitlen_powi [OF p] bitlen_powi [OF q] p q by (intro frac_less) auto
  moreover have "(2::rat) powi (?d + 1) = 2 powi (bitlen p) / 2 powi (bitlen q - 1)"
    using power_int_diff [of "2::rat" "bitlen p" "bitlen q - 1"] by (simp add: algebra_simps)
  ultimately have hi: "m < 2 powi (?d + 1)" using m by simp
  show "2 powi (ilog2 m) \<le> m" using lo by (simp add: ilog2_def pq Let_def)
  show "m < 2 powi (ilog2 m + 1)" using hi by (auto simp add: ilog2_def pq Let_def not_le)
qed

lemma powi2_exp_le:
  assumes "(2::rat) powi a \<le> m" "m < 2 powi (b + 1)"
  shows "a \<le> b"
proof (rule ccontr)
  assume "\<not> a \<le> b"
  then have "b + 1 \<le> a" by simp
  then have "(2::rat) powi (b + 1) \<le> 2 powi a" by (intro power_int_increasing) auto
  with assms show False by simp
qed

lemma ilog2_eq:
  assumes "(2::rat) powi e \<le> m" "m < 2 powi (e + 1)"
  shows "ilog2 m = e"
proof -
  have "0 < (2::rat) powi e" by simp
  then have m: "0 < m" using assms(1) by linarith
  have "ilog2 m \<le> e" using powi2_exp_le [OF ilog2_bounds(1) [OF m] assms(2)] .
  moreover have "e \<le> ilog2 m" using powi2_exp_le [OF assms(1) ilog2_bounds(2) [OF m]] .
  ultimately show ?thesis by simp
qed

lemma round_half_even_near:
  assumes "\<bar>q - of_int n\<bar> < 1 / 2"
  shows "round_half_even q = n"
proof -
  have fl: "of_int \<lfloor>q\<rfloor> \<le> q" "q < of_int \<lfloor>q\<rfloor> + 1" by linarith+
  have lt: "of_int n - 1 / 2 < q" "q < of_int n + 1 / 2" using assms by linarith+
  have "rat_of_int \<lfloor>q\<rfloor> < of_int n + 1 / 2" using fl(1) lt(2) by linarith
  then have "rat_of_int \<lfloor>q\<rfloor> < of_int (n + 1)" by simp
  then have u: "\<lfloor>q\<rfloor> < n + 1" using of_int_less_iff by blast
  have "rat_of_int n - 1 / 2 < of_int \<lfloor>q\<rfloor> + 1" using fl(2) lt(1) by linarith
  then have "rat_of_int (n - 2) < of_int \<lfloor>q\<rfloor>" by simp
  then have l: "n - 2 < \<lfloor>q\<rfloor>" using of_int_less_iff by blast
  from u l have "\<lfloor>q\<rfloor> = n \<or> \<lfloor>q\<rfloor> = n - 1" by linarith
  then show ?thesis
  proof
    assume f: "\<lfloor>q\<rfloor> = n"
    then show ?thesis using lt by (simp add: round_half_even_def Let_def)
  next
    assume f: "\<lfloor>q\<rfloor> = n - 1"
    then show ?thesis using lt by (simp add: round_half_even_def Let_def)
  qed
qed

lemma round_half_even_tie:
  assumes "q = of_int k + 1 / 2"
  shows "round_half_even q = (if even k then k else k + 1)"
proof -
  have "\<lfloor>q\<rfloor> = k" using assms by (intro floor_unique) auto
  then show ?thesis using assms by (simp add: round_half_even_def Let_def)
qed

lemma round_half_even_ge:
  assumes "of_int k \<le> q"
  shows "k \<le> round_half_even q"
proof -
  have "k \<le> \<lfloor>q\<rfloor>" using assms by (simp add: le_floor_iff)
  then show ?thesis by (simp add: round_half_even_def Let_def)
qed

text \<open>
  A certificate for one rounding in the normal range: the exponent \<open>e\<close> and the
  integer \<open>n\<close> of the result \<open>n * 2 ^ (e - 52)\<close>.
\<close>

lemma rnd_exp:
  assumes e: "(2::rat) powi e \<le> m" "m < 2 powi (e + 1)" and r: "- 1022 \<le> e" "e \<le> 1023"
    and n: "round_half_even (m / 2 powi (e - 52)) = n" and x: "x = of_int n * 2 powi (e - 52)"
    and b: "x < 2 ^ 1024"
  shows "rnd s m = Fin s x"
proof -
  have "0 < (2::rat) powi e" by simp
  then have m: "m \<noteq> 0" using e(1) by linarith
  have q: "quantum_exp m = e - 52" using ilog2_eq [OF e] r by (simp add: quantum_exp_def)
  show ?thesis using m b x n by (simp add: rnd_def q Let_def)
qed

lemma rnd_normal:
  assumes "(2::rat) powi e \<le> m" "m < 2 powi (e + 1)" "- 1022 \<le> e" "e \<le> 1023"
    and "\<bar>m / 2 powi (e - 52) - of_int n\<bar> < 1 / 2" and "x = of_int n * 2 powi (e - 52)"
    and "x < 2 ^ 1024"
  shows "rnd s m = Fin s x"
  using rnd_exp [OF assms(1-4) round_half_even_near [OF assms(5)] assms(6,7)] .

lemma rnd_tie:
  assumes "(2::rat) powi e \<le> m" "m < 2 powi (e + 1)" "- 1022 \<le> e" "e \<le> 1023"
    and "m / 2 powi (e - 52) = of_int k + 1 / 2"
    and "x = of_int (if even k then k else k + 1) * 2 powi (e - 52)"
    and "x < 2 ^ 1024"
  shows "rnd s m = Fin s x"
  using rnd_exp [OF assms(1-4) round_half_even_tie [OF assms(5)] assms(6,7)] .

lemma lit_normal:
  assumes "(2::rat) powi e \<le> q" "q < 2 powi (e + 1)" "- 1022 \<le> e" "e \<le> 1023"
    and "\<bar>q / 2 powi (e - 52) - of_int n\<bar> < 1 / 2" and "x = of_int n * 2 powi (e - 52)"
    and "x < 2 ^ 1024"
  shows "lit q = Fin False x"
proof -
  have "0 < (2::rat) powi e" by simp
  then have "0 < q" using assms(1) by linarith
  then show ?thesis using rnd_normal [OF assms, of False] by (simp add: lit_def)
qed

text \<open>
  From the smallest subnormal on, rounding gives a positive magnitude or an
  infinity, never a zero.
\<close>

lemma rnd_positive:
  assumes "2 powi (- 1074) \<le> m"
  shows "rnd s m = Inf s \<or> (\<exists>r. 0 < r \<and> rnd s m = Fin s r)"
proof -
  have "0 < (2::rat) powi (- 1074)" by simp
  then have m: "0 < m" using assms by linarith
  let ?e = "quantum_exp m"
  have one: "1 \<le> m / 2 powi ?e"
  proof (cases "- 1022 \<le> ilog2 m")
    case True
    then have e: "?e = ilog2 m - 52" by (simp add: quantum_exp_def)
    have "(2::rat) powi ?e \<le> 2 powi (ilog2 m)"
      unfolding e by (intro power_int_increasing) auto
    then have "2 powi ?e \<le> m" using ilog2_bounds(1) [OF m] by linarith
    then show ?thesis by (simp add: le_divide_eq)
  next
    case False
    then have e: "?e = - 1074" by (simp add: quantum_exp_def)
    show ?thesis unfolding e using assms by (simp add: le_divide_eq)
  qed
  then have "rat_of_int 1 \<le> m / 2 powi ?e" by simp
  then have "1 \<le> round_half_even (m / 2 powi ?e)" by (rule round_half_even_ge)
  then have "0 < rat_of_int (round_half_even (m / 2 powi ?e)) * 2 powi ?e"
    by (intro mult_pos_pos) auto
  then show ?thesis using m by (auto simp add: rnd_def Let_def)
qed

subsection \<open>The literals of the script\<close>

lemma lit_0: "lit 0 = Fin False 0"
  by (simp add: lit_def rnd_def)

lemma lit_1: "lit 1 = Fin False 1"
  by (rule lit_normal [where e = 0 and n = 4503599627370496]) simp_all

lemma lit_1_0: "lit 1.0 = Fin False 1"
  using lit_1 by simp

lemma lit_3: "lit 3 = Fin False 3"
  by (rule lit_normal [where e = 1 and n = 6755399441055744]) simp_all

lemma lit_4: "lit 4 = Fin False 4"
  by (rule lit_normal [where e = 2 and n = 4503599627370496]) simp_all

lemma lit_1_5: "lit 1.5 = Fin False (3 / 2)"
  by (rule lit_normal [where e = 0 and n = 6755399441055744]) simp_all

lemma lit_0_6: "lit 0.6 = Fin False (5404319552844595 / 9007199254740992)"
  by (rule lit_normal [where e = "- 1" and n = 5404319552844595]) simp_all

lemma lit_0_8: "lit 0.8 = Fin False (3602879701896397 / 4503599627370496)"
  by (rule lit_normal [where e = "- 1" and n = 7205759403792794]) simp_all

lemma lit_2_4: "lit 2.4 = Fin False (5404319552844595 / 2251799813685248)"
  by (rule lit_normal [where e = 1 and n = 5404319552844595]) simp_all

lemma HBAR_value:
  "HBAR = Fin False (4932026999131281 / 46768052394588893382517914646921056628989841375232)"
  unfolding HBAR_def
  by (rule lit_normal [where e = "- 113" and n = 4932026999131281]) simp_all

lemma EPSILON_value:
  "EPSILON = Fin False
     (1225996432692711 / 12259964326927110866866776217202473468949912977468817408)"
  unfolding EPSILON_def
  by (rule lit_normal [where e = "- 133" and n = 4903985730770844]) simp_all

subsection \<open>The arithmetic of phase 4\<close>

lemma sum_06_08:
  "Fin False (5404319552844595 / 9007199254740992) + Fin False (3602879701896397 / 4503599627370496)
   = Fin False (3152519739159347 / 2251799813685248)"
  apply (simp add: signed_def)
  apply (rule rnd_tie [where e = 0 and k = 6305039478318694])
        apply simp_all
  done

lemma sum_14_1:
  "Fin False (3152519739159347 / 2251799813685248) + Fin False 1
   = Fin False (5404319552844595 / 2251799813685248)"
  apply (simp add: signed_def)
  apply (rule rnd_normal [where e = 1 and n = 5404319552844595])
        apply simp_all
  done

lemma min3_norms:
  "py_min3 (Fin False (5404319552844595 / 9007199254740992))
     (Fin False (3602879701896397 / 4503599627370496)) (Fin False 1)
   = Fin False (5404319552844595 / 9007199254740992)"
  by (simp add: py_min3_def signed_def)

lemma prod_06_15:
  "Fin False (5404319552844595 / 9007199254740992) * Fin False (3 / 2)
   = Fin False (2026619832316723 / 2251799813685248)"
  apply simp
  apply (rule rnd_tie [where e = "- 1" and k = 8106479329266892])
        apply simp_all
  done

lemma K_sum_value:
  "K_sum (phase_4_body S_HYM delta) = Fin False (5404319552844595 / 2251799813685248)"
  unfolding phase_4_body_def Let_def lit_1_0 lit_0_6 lit_0_8
  by (simp only: phase_4_locals.simps sum_06_08 sum_14_1)

lemma C_stab_value:
  "C_stab (phase_4_body S_HYM delta) = Fin False (2026619832316723 / 2251799813685248)"
  unfolding phase_4_body_def Let_def lit_1_0 lit_0_6 lit_0_8 lit_1_5
  by (simp only: phase_4_locals.simps min3_norms prod_06_15)

section \<open>The claims\<close>

text \<open>
  C5: with the placeholder norms \<^verbatim>\<open>1.0\<close>, \<^verbatim>\<open>0.8\<close> and \<^verbatim>\<open>0.6\<close>, the aggregate
  \<open>K\<close> that phase 4 returns, the float sum \<^verbatim>\<open>0.6 + 0.8 + 1.0\<close>, is exactly the float
  \<^verbatim>\<open>2.4\<close>, whatever the arguments of the call.
\<close>

theorem K_is_2_4: "phase_4_sobolev_boundary S_HYM delta = lit 2.4"
  by (simp only: phase_4_sobolev_boundary_def K_sum_value lit_2_4)

end
